theory Spec2Isabelle
  imports Complex_Main "HOL-Library.Option_ord"
begin

section \<open>The listing collection\<close>

text \<open>
  \<^verbatim>\<open>listingSchema\<close> (lib/modals/listing.modal.ts) declares thirteen paths and is built
  by \<^verbatim>\<open>new mongoose.Schema({...})\<close> with that one argument: no schema options, so no
  \<^verbatim>\<open>timestamps\<close>. The thirteen paths are the record \<open>formData\<close>, which is also the shape
  of the body of the create route and of \<^verbatim>\<open>data.formData\<close> in the update route.

  A stored document adds the identifier \<^verbatim>\<open>_id\<close> (here \<open>doc_id\<close>, an opaque
  well-formed identifier) and whatever \<^verbatim>\<open>updatedAt\<close> the document carries in the
  collection: the query route sorts on that field, so it is part of the document, absent
  (\<open>None\<close>) or a time stamp. JavaScript numbers are modelled as exact rationals; IEEE
  rounding is not modelled.
\<close>

record formData =
  projectName :: string
  unitName :: string
  unitNumber :: rat
  description :: string
  address :: string
  sell :: bool
  rent :: bool
  parkingSpot :: bool
  furnished :: bool
  offer :: bool
  beds :: rat
  baths :: rat
  regularPrice :: rat

record listing = formData +
  doc_id :: nat
  updatedAt :: "nat option"

type_synonym store = "listing list"

datatype error = DuplicateUnitName | DuplicateUnitNumber | NotFound | InternalError

section \<open>JavaScript helpers used by the routes\<close>

text \<open>
  Strings are lists of 8-bit characters; \<^verbatim>\<open>String.prototype.trim\<close> removes the ASCII
  white space and line terminators (TAB, LF, VT, FF, CR, SP) from both ends.
\<close>

definition is_ws :: "char \<Rightarrow> bool" where
  "is_ws c = (c \<in> set [CHR 0x09, CHR 0x0A, CHR 0x0B, CHR 0x0C, CHR 0x0D, CHR '' ''])"

definition trim :: "string \<Rightarrow> string" where
  "trim s = rev (dropWhile is_ws (rev (dropWhile is_ws s)))"

definition toLowerCase_char :: "char \<Rightarrow> char" where
  "toLowerCase_char c =
     (case map_of (zip ''ABCDEFGHIJKLMNOPQRSTUVWXYZ'' ''abcdefghijklmnopqrstuvwxyz'') c of
        Some l \<Rightarrow> l | None \<Rightarrow> c)"

definition toLowerCase :: "string \<Rightarrow> string" where
  "toLowerCase s = map toLowerCase_char s"

subsection \<open>\<^verbatim>\<open>Number(string)\<close>\<close>

datatype jsnum = NaN | Num rat | PosInfinity | NegInfinity

definition isNaN :: "jsnum \<Rightarrow> bool" where
  "isNaN n = (n = NaN)"

definition digit_of :: "char \<Rightarrow> nat option" where
  "digit_of c = map_of
     [(CHR ''0'', 0), (CHR ''1'', 1), (CHR ''2'', 2), (CHR ''3'', 3), (CHR ''4'', 4),
      (CHR ''5'', 5), (CHR ''6'', 6), (CHR ''7'', 7), (CHR ''8'', 8), (CHR ''9'', 9),
      (CHR ''a'', 10), (CHR ''b'', 11), (CHR ''c'', 12), (CHR ''d'', 13), (CHR ''e'', 14),
      (CHR ''f'', 15), (CHR ''A'', 10), (CHR ''B'', 11), (CHR ''C'', 12), (CHR ''D'', 13),
      (CHR ''E'', 14), (CHR ''F'', 15)] c"

definition is_digit :: "nat \<Rightarrow> char \<Rightarrow> bool" where
  "is_digit radix c = (case digit_of c of None \<Rightarrow> False | Some d \<Rightarrow> d < radix)"

text \<open>The value of a string of digits of the given radix, most significant first.\<close>

definition digits_value :: "nat \<Rightarrow> string \<Rightarrow> nat" where
  "digits_value radix ds = foldl (\<lambda>acc c. acc * radix + (case digit_of c of None \<Rightarrow> 0 | Some d \<Rightarrow> d)) 0 ds"

text \<open>\<^verbatim>\<open>NonDecimalIntegerLiteral\<close>: \<^verbatim>\<open>0x\<close>, \<^verbatim>\<open>0o\<close>, \<^verbatim>\<open>0b\<close> and at least one digit, no sign.\<close>

definition radix_digits :: "nat \<Rightarrow> string \<Rightarrow> jsnum" where
  "radix_digits radix ds =
     (if ds \<noteq> [] \<and> list_all (is_digit radix) ds then Num (of_nat (digits_value radix ds))
      else NaN)"

fun NonDecimalIntegerLiteral :: "string \<Rightarrow> jsnum option" where
  "NonDecimalIntegerLiteral (z # p # ds) =
     (if z \<noteq> CHR ''0'' then None
      else if p = CHR ''x'' \<or> p = CHR ''X'' then Some (radix_digits 16 ds)
      else if p = CHR ''o'' \<or> p = CHR ''O'' then Some (radix_digits 8 ds)
      else if p = CHR ''b'' \<or> p = CHR ''B'' then Some (radix_digits 2 ds)
      else None)"
| "NonDecimalIntegerLiteral _ = None"

text \<open>\<^verbatim>\<open>ExponentPart\<close>: nothing, or \<^verbatim>\<open>e\<close>/\<^verbatim>\<open>E\<close>, an optional sign and at least one digit.\<close>

fun ExponentPart :: "string \<Rightarrow> int option" where
  "ExponentPart [] = Some 0"
| "ExponentPart (e # rest) =
     (if e \<noteq> CHR ''e'' \<and> e \<noteq> CHR ''E'' then None
      else (case rest of
              [] \<Rightarrow> None
            | s # ds \<Rightarrow>
                if s = CHR ''-'' then
                  (if ds \<noteq> [] \<and> list_all (is_digit 10) ds
                   then Some (- int (digits_value 10 ds)) else None)
                else if s = CHR ''+'' then
                  (if ds \<noteq> [] \<and> list_all (is_digit 10) ds
                   then Some (int (digits_value 10 ds)) else None)
                else
                  (if list_all (is_digit 10) rest
                   then Some (int (digits_value 10 rest)) else None)))"

definition scale10 :: "rat \<Rightarrow> int \<Rightarrow> rat" where
  "scale10 m e = (if 0 \<le> e then m * 10 ^ nat e else m / 10 ^ nat (- e))"

text \<open>
  \<^verbatim>\<open>StrUnsignedDecimalLiteral\<close>: \<^verbatim>\<open>Infinity\<close>, or digits with an optional fraction
  and exponent; at least one digit before or after the point.
\<close>

definition StrUnsignedDecimalLiteral :: "string \<Rightarrow> jsnum" where
  "StrUnsignedDecimalLiteral s =
     (if s = ''Infinity'' then PosInfinity
      else
        let ip = takeWhile (is_digit 10) s;
            r1 = dropWhile (is_digit 10) s;
            dot = (r1 \<noteq> [] \<and> hd r1 = CHR ''.'');
            fp = (if dot then takeWhile (is_digit 10) (tl r1) else []);
            r2 = (if dot then dropWhile (is_digit 10) (tl r1) else r1)
        in if ip = [] \<and> fp = [] then NaN
           else (case ExponentPart r2 of
                   None \<Rightarrow> NaN
                 | Some e \<Rightarrow>
                     Num (scale10 (of_nat (digits_value 10 ip)
                                   + of_nat (digits_value 10 fp) / 10 ^ length fp) e)))"

definition negate :: "jsnum \<Rightarrow> jsnum" where
  "negate n = (case n of NaN \<Rightarrow> NaN | Num q \<Rightarrow> Num (- q)
               | PosInfinity \<Rightarrow> NegInfinity | NegInfinity \<Rightarrow> PosInfinity)"

text \<open>
  \<^verbatim>\<open>StringToNumber\<close> on a string without surrounding white space: the empty string is
  \<open>0\<close>, then a non-decimal literal, then a signed decimal literal; anything else is NaN.
\<close>

definition StringToNumber :: "string \<Rightarrow> jsnum" where
  "StringToNumber s =
     (if s = [] then Num 0
      else (case NonDecimalIntegerLiteral s of
              Some n \<Rightarrow> n
            | None \<Rightarrow>
                if hd s = CHR ''-'' then negate (StrUnsignedDecimalLiteral (tl s))
                else if hd s = CHR ''+'' then StrUnsignedDecimalLiteral (tl s)
                else StrUnsignedDecimalLiteral s))"

text \<open>
  \<^verbatim>\<open>Number(x)\<close> for the optional string \<^verbatim>\<open>data.searchTerm?.trim()\<close>: \<^verbatim>\<open>undefined\<close>
  gives NaN; a string is stripped of white space and read by \<open>StringToNumber\<close>.
\<close>

definition Number :: "string option \<Rightarrow> jsnum" where
  "Number x = (case x of None \<Rightarrow> NaN | Some s \<Rightarrow> StringToNumber (trim s))"

subsection \<open>\<^verbatim>\<open>parseInt(x) || d\<close>\<close>

text \<open>
  The pagination fields are the non-negative integers the pages of this repository send
  (or absent). \<^verbatim>\<open>parseInt\<close> of such a number is the number, of \<^verbatim>\<open>undefined\<close> it is NaN
  (\<open>None\<close>); \<^verbatim>\<open>||\<close> takes its right operand when the left one is NaN or \<open>0\<close>.
\<close>

definition parseInt :: "nat option \<Rightarrow> nat option" where
  "parseInt x = x"

fun or_default :: "nat option \<Rightarrow> nat \<Rightarrow> nat" where
  "or_default None d = d"
| "or_default (Some n) d = (if n = 0 then d else n)"

section \<open>The store operations\<close>

subsection \<open>Create route\<close>

text \<open>
  \<^verbatim>\<open>Listing.findOne(filter)\<close>: the first document of the collection that satisfies the
  filter, or nothing.
\<close>

definition findOne :: "(listing \<Rightarrow> bool) \<Rightarrow> store \<Rightarrow> listing option" where
  "findOne p st = List.find p st"

text \<open>
  Validation of \<^verbatim>\<open>Listing.create\<close> against the schema: every path is
  \<^verbatim>\<open>required\<close>, which a string path meets only when it is not empty; the typed
  record has the booleans and numbers present.
\<close>

definition validates :: "formData \<Rightarrow> bool" where
  "validates data =
     (projectName data \<noteq> [] \<and> unitName data \<noteq> [] \<and> description data \<noteq> []
      \<and> address data \<noteq> [])"

text \<open>The identifier of a new document is one that no stored document has.\<close>

definition new_id :: "store \<Rightarrow> nat" where
  "new_id st = Suc (fold max (map doc_id st) 0)"

text \<open>
  The document built by \<^verbatim>\<open>Listing.create({projectName: data.projectName, ...})\<close>: the
  thirteen paths of the schema and \<^verbatim>\<open>_id\<close>. The schema has no time stamps, so the
  document has no \<^verbatim>\<open>updatedAt\<close>.
\<close>

definition new_listing :: "nat \<Rightarrow> formData \<Rightarrow> listing" where
  "new_listing i data =
     \<lparr> projectName = projectName data,
       unitName = unitName data,
       unitNumber = unitNumber data,
       description = description data,
       address = address data,
       sell = sell data,
       rent = rent data,
       parkingSpot = parkingSpot data,
       furnished = furnished data,
       offer = offer data,
       beds = beds data,
       baths = baths data,
       regularPrice = regularPrice data,
       doc_id = i,
       updatedAt = None \<rparr>"

text \<open>
  The handler of the create route: status 400 with the unit-name message, status 400 with
  the unit-number message, status 500 (any exception), or status 200 with the new id.
\<close>

definition POST_create :: "store \<Rightarrow> formData \<Rightarrow> (error + nat) \<times> store" where
  "POST_create st data =
     (case findOne (\<lambda>d. unitName d = unitName data) st of
        Some existingUnitName \<Rightarrow> (Inl DuplicateUnitName, st)
      | None \<Rightarrow>
          (case findOne (\<lambda>d. unitNumber d = unitNumber data) st of
             Some existingUnitNumber \<Rightarrow> (Inl DuplicateUnitNumber, st)
           | None \<Rightarrow>
               if \<not> validates data then (Inl InternalError, st)
               else let newListing = new_listing (new_id st) data
                    in (Inr (doc_id newListing), st @ [newListing])))"

subsection \<open>Update route\<close>

text \<open>
  The \<^verbatim>\<open>$set\<close> of the update route names the thirteen paths of the schema and nothing
  else.
\<close>

definition set_fields :: "formData \<Rightarrow> listing \<Rightarrow> listing" where
  "set_fields f d =
     d\<lparr> projectName := projectName f,
        unitName := unitName f,
        unitNumber := unitNumber f,
        description := description f,
        address := address f,
        sell := sell f,
        rent := rent f,
        parkingSpot := parkingSpot f,
        furnished := furnished f,
        offer := offer f,
        beds := beds f,
        baths := baths f,
        regularPrice := regularPrice f \<rparr>"

fun update_first :: "nat \<Rightarrow> (listing \<Rightarrow> listing) \<Rightarrow> store \<Rightarrow> store" where
  "update_first i g [] = []"
| "update_first i g (d # ds) = (if doc_id d = i then g d # ds else d # update_first i g ds)"

text \<open>
  \<^verbatim>\<open>Listing.findByIdAndUpdate(id, {$set: ...}, {new: true})\<close>: nothing when no document
  has the id (status 404). The two \<^verbatim>\<open>unique: true\<close> indexes of the schema make the
  database refuse a write that would give two documents one unit name or one unit number;
  the handler answers that exception with status 500.
\<close>

definition POST_update :: "store \<Rightarrow> nat \<Rightarrow> formData \<Rightarrow> (error + nat) \<times> store" where
  "POST_update st listingId formData =
     (case findOne (\<lambda>d. doc_id d = listingId) st of
        None \<Rightarrow> (Inl NotFound, st)
      | Some d \<Rightarrow>
          if \<exists>e \<in> set st. doc_id e \<noteq> listingId
               \<and> (unitName e = unitName formData \<or> unitNumber e = unitNumber formData)
          then (Inl InternalError, st)
          else (Inr listingId, update_first listingId (set_fields formData) st))"

section \<open>The query route\<close>

text \<open>
  The body of a query request. The identifier is a well-formed one, the strings are what
  the pages send; a field the body does not have is \<open>None\<close>.
\<close>

record request =
  userId :: "string option"
  listingId :: "nat option"
  searchTerm :: "string option"
  startIndex :: "nat option"
  limit :: "nat option"
  order :: "string option"

subsection \<open>The filter object\<close>

datatype strpath = ProjectName | UnitName

datatype cond =
    UserIdIs string
  | IdIs nat
  | UnitNumberIs jsnum
  | RegexOn strpath string string

datatype clause = Cond cond | Or "cond list"

text \<open>\<^verbatim>\<open>...(data.userId && { userId: data.userId })\<close>; the empty string is falsy.\<close>

definition userIdFilter :: "request \<Rightarrow> clause list" where
  "userIdFilter data =
     (case userId data of
        None \<Rightarrow> []
      | Some u \<Rightarrow> if u = [] then [] else [Cond (UserIdIs u)])"

text \<open>\<^verbatim>\<open>...(data.listingId && { _id: data.listingId })\<close>\<close>

definition listingIdFilter :: "request \<Rightarrow> clause list" where
  "listingIdFilter data =
     (case listingId data of None \<Rightarrow> [] | Some i \<Rightarrow> [Cond (IdIs i)])"

text \<open>\<^verbatim>\<open>const isNumericSearch = !isNaN(Number(data.searchTerm?.trim()))\<close>\<close>

definition isNumericSearch :: "request \<Rightarrow> bool" where
  "isNumericSearch data = (\<not> isNaN (Number (map_option trim (searchTerm data))))"

text \<open>
  \<^verbatim>\<open>...(data.searchTerm?.trim() && { $or: isNumericSearch ? [...] : [...] })\<close>: nothing
  when the term is absent or trims to the empty string.
\<close>

definition searchFilter :: "request \<Rightarrow> clause list" where
  "searchFilter data =
     (case searchTerm data of
        None \<Rightarrow> []
      | Some s \<Rightarrow>
          if trim s = [] then []
          else [Or (if isNumericSearch data
                    then [UnitNumberIs (Number (Some (trim s)))]
                    else [RegexOn ProjectName (toLowerCase (trim s)) ''i'',
                          RegexOn UnitName (toLowerCase (trim s)) ''i''])])"

definition filterOf :: "request \<Rightarrow> clause list" where
  "filterOf data = userIdFilter data @ listingIdFilter data @ searchFilter data"

subsection \<open>\<^verbatim>\<open>Listing.find\<close>\<close>

text \<open>
  The regular-expression engine of the database is not code of this repository: it is a
  parameter. Given a pattern and the options it either rejects the pattern (\<open>None\<close>) or
  gives the test that says whether the pattern is found somewhere in a subject string.
\<close>

type_synonym regex_engine = "string \<Rightarrow> string \<Rightarrow> (string \<Rightarrow> bool) option"

definition read_path :: "strpath \<Rightarrow> listing \<Rightarrow> string" where
  "read_path p d = (case p of ProjectName \<Rightarrow> projectName d | UnitName \<Rightarrow> unitName d)"

text \<open>A condition is well formed unless it carries a pattern the engine rejects.\<close>

fun cond_valid :: "regex_engine \<Rightarrow> cond \<Rightarrow> bool" where
  "cond_valid re (RegexOn p pat opts) = (re pat opts \<noteq> None)"
| "cond_valid re _ = True"

text \<open>
  What the database decides for one document. No stored document has a path
  \<^verbatim>\<open>userId\<close> (it is not in the schema), so an equality on it holds of none.
\<close>

fun cond_holds :: "regex_engine \<Rightarrow> cond \<Rightarrow> listing \<Rightarrow> bool" where
  "cond_holds re (UserIdIs u) d = False"
| "cond_holds re (IdIs i) d = (doc_id d = i)"
| "cond_holds re (UnitNumberIs n) d = (Num (unitNumber d) = n)"
| "cond_holds re (RegexOn p pat opts) d =
     (case re pat opts of None \<Rightarrow> False | Some test \<Rightarrow> test (read_path p d))"

fun clause_valid :: "regex_engine \<Rightarrow> clause \<Rightarrow> bool" where
  "clause_valid re (Cond k) = cond_valid re k"
| "clause_valid re (Or ks) = (\<forall>k \<in> set ks. cond_valid re k)"

fun clause_holds :: "regex_engine \<Rightarrow> clause \<Rightarrow> listing \<Rightarrow> bool" where
  "clause_holds re (Cond k) d = cond_holds re k d"
| "clause_holds re (Or ks) d = (\<exists>k \<in> set ks. cond_holds re k d)"

text \<open>
  \<^verbatim>\<open>connect()\<close> runs \<^verbatim>\<open>mongoose.set("strictQuery", true)\<close>: a top-level key of the
  filter that is not a path of the schema is removed before the filter is sent. Of the
  keys the route writes, that is \<^verbatim>\<open>userId\<close>.
\<close>

fun in_schema :: "clause \<Rightarrow> bool" where
  "in_schema (Cond (UserIdIs u)) = False"
| "in_schema _ = True"

definition strictQuery :: "clause list \<Rightarrow> clause list" where
  "strictQuery flt = filter in_schema flt"

text \<open>
  \<^verbatim>\<open>Listing.find(filter)\<close>: the documents satisfying every clause, in the order of the
  collection; an exception (answered with status 500) when a pattern is rejected.
\<close>

definition find_listings :: "regex_engine \<Rightarrow> clause list \<Rightarrow> store \<Rightarrow> error + listing list" where
  "find_listings re flt st =
     (if \<forall>c \<in> set (strictQuery flt). clause_valid re c
      then Inr (filter (\<lambda>d. \<forall>c \<in> set (strictQuery flt). clause_holds re c d) st)
      else Inl InternalError)"

subsection \<open>\<^verbatim>\<open>.sort({ updatedAt: sortDirection })\<close>\<close>

text \<open>
  The database compares a missing \<^verbatim>\<open>updatedAt\<close> as null, which is below every date:
  the order of \<open>nat option\<close> with \<open>None\<close> least. Direction \<open>1\<close> is ascending, any other
  descending. The order among documents with equal keys is not fixed by the database; the
  model keeps the order of the collection among them.
\<close>

definition precedes :: "int \<Rightarrow> listing \<Rightarrow> listing \<Rightarrow> bool" where
  "precedes dir a b =
     (if dir = 1 then updatedAt a \<le> updatedAt b else updatedAt b \<le> updatedAt a)"

fun insert_sorted :: "int \<Rightarrow> listing \<Rightarrow> listing list \<Rightarrow> listing list" where
  "insert_sorted dir x [] = [x]"
| "insert_sorted dir x (y # ys) =
     (if precedes dir x y then x # y # ys else y # insert_sorted dir x ys)"

definition sort_updatedAt :: "int \<Rightarrow> listing list \<Rightarrow> listing list" where
  "sort_updatedAt dir ds = foldr (insert_sorted dir) ds []"

subsection \<open>The handler\<close>

text \<open>\<^verbatim>\<open>const sortDirection = data.order === 'asc' ? 1 : -1\<close>\<close>

definition sortDirection :: "request \<Rightarrow> int" where
  "sortDirection data = (if order data = Some ''asc'' then 1 else - 1)"

text \<open>
  The handler of the query route: status 200 with the page, or status 500 when the
  database throws.
\<close>

definition POST_get :: "regex_engine \<Rightarrow> store \<Rightarrow> request \<Rightarrow> error + listing list" where
  "POST_get re st data =
     (let startIndex' = or_default (parseInt (startIndex data)) 0;
          limit' = or_default (parseInt (limit data)) 9
      in case find_listings re (filterOf data) st of
           Inl e \<Rightarrow> Inl e
         | Inr listings \<Rightarrow>
             Inr (take limit' (drop startIndex' (sort_updatedAt (sortDirection data) listings))))"

section \<open>Text search as the pages describe it, and a fragment of the engine\<close>

text \<open>
  \<open>str_includes s t\<close>: the string \<open>t\<close> occurs in \<open>s\<close> as a run of consecutive characters
  (\<^verbatim>\<open>String.prototype.includes\<close>); \<open>contains_ci\<close> is the same without regard to case.
\<close>

fun starts_with :: "string \<Rightarrow> string \<Rightarrow> bool" where
  "starts_with s [] = True"
| "starts_with [] (c # t) = False"
| "starts_with (a # s) (c # t) = (a = c \<and> starts_with s t)"

fun str_includes :: "string \<Rightarrow> string \<Rightarrow> bool" where
  "str_includes [] t = (t = [])"
| "str_includes (a # s) t = (starts_with (a # s) t \<or> str_includes s t)"

definition contains_ci :: "string \<Rightarrow> string \<Rightarrow> bool" where
  "contains_ci s t = str_includes (toLowerCase s) (toLowerCase t)"

text \<open>
  The characters with a meaning of their own in a pattern: \<^verbatim>\<open>\ ^ $ . | ? * + ( ) [ ] { }\<close>.
\<close>

definition is_meta :: "char \<Rightarrow> bool" where
  "is_meta c = (c \<in> set [CHR 0x5C, CHR ''^'', CHR ''$'', CHR ''.'', CHR ''|'', CHR ''?'',
                          CHR ''*'', CHR ''+'', CHR ''('', CHR '')'', CHR ''['', CHR '']'',
                          CHR ''{'', CHR ''}''])"

text \<open>
  On a pattern made of ordinary characters and \<^verbatim>\<open>.\<close> only, with the option \<^verbatim>\<open>i\<close>, the
  engine finds the pattern where each ordinary character meets the same letter in either
  case and each \<^verbatim>\<open>.\<close> meets any character but a line feed.
\<close>

fun item_matches :: "char \<Rightarrow> char \<Rightarrow> bool" where
  "item_matches p c =
     (if p = CHR ''.'' then c \<noteq> CHR 0x0A else toLowerCase_char p = toLowerCase_char c)"

fun matches_here :: "string \<Rightarrow> string \<Rightarrow> bool" where
  "matches_here [] s = True"
| "matches_here (p # ps) [] = False"
| "matches_here (p # ps) (c # cs) = (item_matches p c \<and> matches_here ps cs)"

fun found_in :: "string \<Rightarrow> string \<Rightarrow> bool" where
  "found_in pat [] = matches_here pat []"
| "found_in pat (c # cs) = (matches_here pat (c # cs) \<or> found_in pat cs)"

definition in_fragment :: "string \<Rightarrow> string \<Rightarrow> bool" where
  "in_fragment pat opts = (opts = ''i'' \<and> (\<forall>c \<in> set pat. is_meta c \<longrightarrow> c = CHR ''.''))"

text \<open>
  An engine that is the one above on the fragment and the given engine \<open>other\<close> on every
  other pattern.
\<close>

definition on_fragment :: "regex_engine \<Rightarrow> regex_engine" where
  "on_fragment other pat opts =
     (if in_fragment pat opts then Some (found_in pat) else other pat opts)"

definition rejects_all :: regex_engine where
  "rejects_all pat opts = None"

section \<open>Sample data\<close>

text \<open>The listing of the routes' documentation, and two more.\<close>

definition sunrise_a :: formData where
  "sunrise_a =
     \<lparr> projectName = ''Sunrise Apartments'', unitName = ''Unit A'', unitNumber = 101,
       description = ''A spacious 2-bedroom apartment.'',
       address = ''123 Main St, City, Country'',
       sell = True, rent = False, parkingSpot = True, furnished = True, offer = False,
       beds = 2, baths = 2, regularPrice = 2000 \<rparr>"

definition tower_b :: formData where
  "tower_b =
     \<lparr> projectName = ''Tower 101'', unitName = ''Unit 101B'', unitNumber = 7,
       description = ''A studio.'', address = ''7 Side St'',
       sell = False, rent = True, parkingSpot = False, furnished = False, offer = False,
       beds = 1, baths = 1, regularPrice = 900 \<rparr>"

definition abc_c :: formData where
  "abc_c =
     \<lparr> projectName = ''abc'', unitName = ''Unit C'', unitNumber = 3,
       description = ''A loft.'', address = ''3 Hill Rd'',
       sell = True, rent = True, parkingSpot = False, furnished = True, offer = True,
       beds = 3, baths = 2, regularPrice = 1500 \<rparr>"

text \<open>A stored document with the given identifier and \<^verbatim>\<open>updatedAt\<close>.\<close>

definition stored :: "nat \<Rightarrow> nat option \<Rightarrow> formData \<Rightarrow> listing" where
  "stored i t data = (new_listing i data)\<lparr> updatedAt := t \<rparr>"

text \<open>A collection whose documents carry time stamps, in no particular order.\<close>

definition stamped_store :: store where
  "stamped_store = [stored 1 (Some 50) sunrise_a, stored 2 None tower_b, stored 3 (Some 20) abc_c]"

text \<open>The request body \<^verbatim>\<open>{}\<close>.\<close>

definition no_fields :: request where
  "no_fields =
     \<lparr> userId = None, listingId = None, searchTerm = None, startIndex = None,
       limit = None, order = None \<rparr>"

section \<open>Facts about the model\<close>


lemma precedes_total: "precedes dir a b \<or> precedes dir b a"
  by (auto simp: precedes_def)

lemma precedes_trans: "precedes dir a b \<Longrightarrow> precedes dir b c \<Longrightarrow> precedes dir a c"
  by (auto simp: precedes_def split: if_splits)

lemma set_insert_sorted: "set (insert_sorted dir x ys) = insert x (set ys)"
  by (induction ys) auto

lemma sorted_insert_sorted:
  "sorted_wrt (precedes dir) ys \<Longrightarrow> sorted_wrt (precedes dir) (insert_sorted dir x ys)"
proof (induction ys)
  case Nil
  then show ?case by simp
next
  case (Cons y ys)
  show ?case
  proof (cases "precedes dir x y")
    case True
    then have "\<forall>z \<in> set ys. precedes dir x z"
      using Cons.prems precedes_trans by auto
    with True Cons.prems show ?thesis by simp
  next
    case False
    then have "precedes dir y x" using precedes_total by blast
    with False Cons show ?thesis by (auto simp: set_insert_sorted)
  qed
qed


lemma sorted_sort_updatedAt: "sorted_wrt (precedes dir) (sort_updatedAt dir ds)"
  by (induction ds) (auto simp: sort_updatedAt_def sorted_insert_sorted)

lemma sorted_page:
  "sorted_wrt (precedes dir) (take n (drop m (sort_updatedAt dir ds)))"
  by (simp add: sorted_sort_updatedAt sorted_wrt_take sorted_wrt_drop)

lemma POST_get_cases:
  "POST_get re st data = Inr page \<Longrightarrow>
   \<exists>ms. find_listings re (filterOf data) st = Inr ms \<and>
        page = take (or_default (parseInt (limit data)) 9)
                 (drop (or_default (parseInt (startIndex data)) 0)
                   (sort_updatedAt (sortDirection data) ms))"
  by (auto simp: POST_get_def Let_def split: sum.splits)

lemma strictQuery_append: "strictQuery (a @ b) = strictQuery a @ strictQuery b"
  by (simp add: strictQuery_def)



lemma POST_get_cong:
  "filterOf a = filterOf b \<Longrightarrow> sortDirection a = sortDirection b \<Longrightarrow>
   startIndex a = startIndex b \<Longrightarrow> limit a = limit b \<Longrightarrow>
   POST_get re st a = POST_get re st b"
  by (simp add: POST_get_def cong: sum.case_cong)

lemmas sample_defs = sunrise_a_def tower_b_def abc_c_def stored_def stamped_store_def
  no_fields_def new_listing_def

lemmas query_defs = POST_get_def find_listings_def filterOf_def userIdFilter_def
  listingIdFilter_def searchFilter_def isNumericSearch_def strictQuery_def
  sort_updatedAt_def precedes_def sortDirection_def parseInt_def read_path_def

lemmas number_defs = Number_def isNaN_def trim_def is_ws_def StringToNumber_def
  StrUnsignedDecimalLiteral_def radix_digits_def is_digit_def digit_of_def
  digits_value_def scale10_def negate_def Let_def

lemmas text_defs = toLowerCase_def toLowerCase_char_def on_fragment_def in_fragment_def
  is_meta_def rejects_all_def contains_ci_def

lemma update_first_updatedAt:
  "(\<And>d. updatedAt (g d) = updatedAt d) \<Longrightarrow> map updatedAt (update_first i g st) = map updatedAt st"
  by (induction st) auto

lemma update_keeps_updatedAt: "map updatedAt (snd (POST_update st i f)) = map updatedAt st"
  by (auto simp: POST_update_def update_first_updatedAt set_fields_def split: option.splits)

lemma create_appends_unstamped:
  "POST_create st data = (Inr i, st') \<Longrightarrow> st' = st @ [new_listing i data] \<and> updatedAt (new_listing i data) = None"
  by (auto simp: POST_create_def Let_def new_listing_def split: option.splits if_splits)

lemma fold_max_bounds:
  "a \<le> fold max xs (a::nat) \<and> (\<forall>x \<in> set xs. x \<le> fold max xs a)"
proof (induction xs arbitrary: a)
  case Nil
  then show ?case by simp
next
  case (Cons y ys)
  from Cons.IH [of "max y a"] show ?case by auto
qed

lemma new_id_fresh: "d \<in> set st \<Longrightarrow> doc_id d \<noteq> new_id st"
  using fold_max_bounds [of 0 "map doc_id st"] by (auto simp: new_id_def)

lemma create_result:
  assumes "POST_create st data = (Inr i, st')"
  shows "i = new_id st \<and> st' = st @ [new_listing i data]"
  using assms
  by (auto simp: POST_create_def Let_def new_listing_def split: option.splits if_splits)

lemma fetch_by_id:
  assumes "\<forall>d \<in> set st. doc_id d \<noteq> i"
  shows "POST_get re (st @ [new_listing i data]) (no_fields\<lparr>listingId := Some i\<rparr>)
           = Inr [new_listing i data]"
proof -
  let ?q = "no_fields\<lparr>listingId := Some i\<rparr>"
  have f: "filterOf ?q = [Cond (IdIs i)]"
    by (simp add: filterOf_def userIdFilter_def listingIdFilter_def searchFilter_def no_fields_def)
  have "filter (\<lambda>d. doc_id d = i) st = []"
    using assms by (simp add: filter_empty_conv)
  then have "find_listings re (filterOf ?q) (st @ [new_listing i data]) = Inr [new_listing i data]"
    by (simp add: find_listings_def f strictQuery_def new_listing_def)
  then show ?thesis
    by (simp add: POST_get_def parseInt_def sort_updatedAt_def no_fields_def)
qed

text \<open>
  The round trip on any collection: the listing fetched by the id that create returned is
  the new document, with the candidate's thirteen fields and that id, and without
  \<^verbatim>\<open>updatedAt\<close>.
\<close>

lemma create_then_fetch:
  assumes "POST_create st data = (Inr i, st')"
  shows "POST_get re st' (no_fields\<lparr>listingId := Some i\<rparr>) = Inr [new_listing i data] \<and>
         formData.truncate (new_listing i data) = data \<and>
         doc_id (new_listing i data) = i \<and>
         updatedAt (new_listing i data) = None"
proof -
  from create_result [OF assms] have i: "i = new_id st" and st': "st' = st @ [new_listing i data]"
    by simp_all
  have "\<forall>d \<in> set st. doc_id d \<noteq> i"
    unfolding i using new_id_fresh by blast
  then have "POST_get re st' (no_fields\<lparr>listingId := Some i\<rparr>) = Inr [new_listing i data]"
    unfolding st' by (rule fetch_by_id)
  moreover have "formData.truncate (new_listing i data) = data"
    by (simp add: new_listing_def formData.truncate_def)
  moreover have "doc_id (new_listing i data) = i" "updatedAt (new_listing i data) = None"
    by (simp_all add: new_listing_def)
  ultimately show ?thesis by blast
qed

text \<open>
  \<^verbatim>\<open>parseInt(data.limit) || 9\<close> reads a limit of \<open>0\<close> as it reads an absent one.
\<close>

lemma limit_zero_reads_as_absent:
  "POST_get re st (data\<lparr>limit := Some 0\<rparr>) = POST_get re st (data\<lparr>limit := None\<rparr>)"
proof -
  have ns: "isNumericSearch (data\<lparr>limit := l\<rparr>) = isNumericSearch data" for l
    by (simp add: isNumericSearch_def)
  have fo: "filterOf (data\<lparr>limit := l\<rparr>) = filterOf data" for l
    by (simp add: filterOf_def searchFilter_def userIdFilter_def listingIdFilter_def ns
             cong: option.case_cong if_cong)
  have sd: "sortDirection (data\<lparr>limit := l\<rparr>) = sortDirection data" for l
    by (simp add: sortDirection_def)
  show ?thesis
    by (simp add: POST_get_def fo sd parseInt_def cong: sum.case_cong)
qed

section \<open>The claims\<close>

text \<open>
  \<^bold>\<open>C1\<close>. Claimed: a successful create gives the new listing an \<^verbatim>\<open>updatedAt\<close> and a
  successful update refreshes it. The schema is declared without time stamps, so on the
  code neither happens: the listing created in the empty collection has no
  \<^verbatim>\<open>updatedAt\<close>, an update of it leaves it without one, and an update of a document
  that carries a time stamp leaves that time stamp as it was. The documentation of the
  query route shows \<^verbatim>\<open>updatedAt\<close> in every returned listing and sorts on it.
\<close>

theorem create_and_update_leave_updatedAt_unset:
  "POST_create [] sunrise_a = (Inr 1, [new_listing 1 sunrise_a]) \<and>
   updatedAt (new_listing 1 sunrise_a) = None \<and>
   POST_update [new_listing 1 sunrise_a] 1 (sunrise_a\<lparr>regularPrice := 2500\<rparr>)
     = (Inr 1, [new_listing 1 (sunrise_a\<lparr>regularPrice := 2500\<rparr>)]) \<and>
   updatedAt (new_listing 1 (sunrise_a\<lparr>regularPrice := 2500\<rparr>)) = None \<and>
   POST_update stamped_store 3 (abc_c\<lparr>regularPrice := 1600\<rparr>)
     = (Inr 3, [stored 1 (Some 50) sunrise_a, stored 2 None tower_b,
                stored 3 (Some 20) (abc_c\<lparr>regularPrice := 1600\<rparr>)])"
proof -
  have c: "POST_create [] sunrise_a = (Inr 1, [new_listing 1 sunrise_a])"
    by (simp add: POST_create_def findOne_def validates_def new_id_def new_listing_def
        sunrise_a_def Let_def)
  have n: "updatedAt (new_listing i data) = None" for i data
    by (simp add: new_listing_def)
  have u: "POST_update [new_listing 1 sunrise_a] 1 (sunrise_a\<lparr>regularPrice := 2500\<rparr>)
     = (Inr 1, [new_listing 1 (sunrise_a\<lparr>regularPrice := 2500\<rparr>)])"
    by (simp add: POST_update_def findOne_def set_fields_def new_listing_def)
  have v: "POST_update stamped_store 3 (abc_c\<lparr>regularPrice := 1600\<rparr>)
     = (Inr 3, [stored 1 (Some 50) sunrise_a, stored 2 None tower_b,
                stored 3 (Some 20) (abc_c\<lparr>regularPrice := 1600\<rparr>)])"
    by (simp add: POST_update_def findOne_def set_fields_def sample_defs)
  from c n u v show ?thesis by blast
qed

text \<open>
  \<^bold>\<open>C2\<close>. Claimed: fetching a created listing by the returned id gives a record equal to
  the candidate in all supplied fields, with the id and \<^verbatim>\<open>updatedAt\<close> populated. On the
  code the listing of the documentation, created in the empty collection and fetched by
  its id, comes back with the thirteen supplied fields and its id, and with no
  \<^verbatim>\<open>updatedAt\<close> (the defect of C1).
\<close>

theorem created_listing_fetched_without_updatedAt:
  "POST_create [] sunrise_a = (Inr 1, [new_listing 1 sunrise_a]) \<and>
   POST_get re [new_listing 1 sunrise_a] (no_fields\<lparr>listingId := Some 1\<rparr>)
     = Inr [new_listing 1 sunrise_a] \<and>
   formData.truncate (new_listing 1 sunrise_a) = sunrise_a \<and>
   doc_id (new_listing 1 sunrise_a) = 1 \<and>
   updatedAt (new_listing 1 sunrise_a) = None"
proof -
  have c: "POST_create [] sunrise_a = (Inr 1, [new_listing 1 sunrise_a])"
    by (simp add: POST_create_def findOne_def validates_def new_id_def new_listing_def
        sunrise_a_def Let_def)
  have g: "POST_get re [new_listing 1 sunrise_a] (no_fields\<lparr>listingId := Some 1\<rparr>)
     = Inr [new_listing 1 sunrise_a]"
    by (simp add: query_defs no_fields_def new_listing_def)
  have t: "formData.truncate (new_listing 1 sunrise_a) = sunrise_a"
    by (simp add: new_listing_def formData.truncate_def sunrise_a_def)
  have i: "doc_id (new_listing 1 sunrise_a) = 1" "updatedAt (new_listing 1 sunrise_a) = None"
    by (simp_all add: new_listing_def)
  from c g t i show ?thesis by blast
qed

theorem created_listing_fetched_without_updatedAt_witness:
  "POST_get rejects_all [new_listing 1 sunrise_a] (no_fields\<lparr>listingId := Some 1\<rparr>)
     = Inr [new_listing 1 sunrise_a] \<and>
   updatedAt (new_listing 1 sunrise_a) = None"
  using created_listing_fetched_without_updatedAt [of rejects_all] by blast



text \<open>
  \<^bold>\<open>C4\<close>. Claimed: with a non-numeric term, a record is matched exactly when its project
  name or unit name contains the term as a substring, case ignored. The route hands the
  lower-cased term to the database as a regular expression without escaping it: the term
  \<^verbatim>\<open>a.c\<close> finds the listing named \<^verbatim>\<open>abc\<close>, neither of whose names contains \<^verbatim>\<open>a.c\<close>. This
  holds with any engine that treats ordinary characters and \<^verbatim>\<open>.\<close> as above.
\<close>

theorem text_search_treats_term_as_pattern:
  "POST_get (on_fragment other) [stored 1 None abc_c] (no_fields\<lparr>searchTerm := Some ''a.c''\<rparr>)
     = Inr [stored 1 None abc_c] \<and>
   \<not> contains_ci (projectName (stored 1 None abc_c)) ''a.c'' \<and>
   \<not> contains_ci (unitName (stored 1 None abc_c)) ''a.c''"
proof -
  have t: "trim ''a.c'' = ''a.c''"
    by (simp add: trim_def is_ws_def)
  have n: "Number (Some ''a.c'') = NaN"
    by (simp add: number_defs)
  have l: "toLowerCase ''a.c'' = ''a.c''"
    by (simp add: text_defs)
  have e: "on_fragment other ''a.c'' ''i'' = Some (found_in ''a.c'')"
    by (simp add: text_defs)
  have f: "searchFilter (no_fields\<lparr>searchTerm := Some ''a.c''\<rparr>)
             = [Or [RegexOn ProjectName ''a.c'' ''i'', RegexOn UnitName ''a.c'' ''i'']]"
    by (simp add: searchFilter_def isNumericSearch_def isNaN_def t n l)
  have u: "userIdFilter (no_fields\<lparr>searchTerm := Some ''a.c''\<rparr>) = []"
    "listingIdFilter (no_fields\<lparr>searchTerm := Some ''a.c''\<rparr>) = []"
    by (simp_all add: userIdFilter_def listingIdFilter_def no_fields_def)
  have p: "startIndex (no_fields\<lparr>searchTerm := Some ''a.c''\<rparr>) = None"
    "limit (no_fields\<lparr>searchTerm := Some ''a.c''\<rparr>) = None"
    by (simp_all add: no_fields_def)
  have m: "found_in ''a.c'' ''abc''"
    by (simp add: text_defs)
  have g: "POST_get (on_fragment other) [stored 1 None abc_c] (no_fields\<lparr>searchTerm := Some ''a.c''\<rparr>)
     = Inr [stored 1 None abc_c]"
    using m by (simp add: POST_get_def find_listings_def filterOf_def f e u p strictQuery_def
        sort_updatedAt_def parseInt_def read_path_def stored_def new_listing_def abc_c_def)
  have c: "\<not> contains_ci (projectName (stored 1 None abc_c)) ''a.c''"
    "\<not> contains_ci (unitName (stored 1 None abc_c)) ''a.c''"
    by (simp_all add: text_defs sample_defs)
  from g c show ?thesis by blast
qed

theorem text_search_treats_term_as_pattern_witness:
  "POST_get (on_fragment rejects_all) [stored 1 None abc_c] (no_fields\<lparr>searchTerm := Some ''a.c''\<rparr>)
     = Inr [stored 1 None abc_c] \<and>
   \<not> contains_ci (projectName (stored 1 None abc_c)) ''a.c''"
  using text_search_treats_term_as_pattern [of rejects_all] by blast

text \<open>
  \<^bold>\<open>C5\<close>. Create answers with the unit-name error whenever a stored listing has the
  candidate's unit name; when none has, it answers with the unit-number error whenever a
  stored listing has the candidate's unit number. In both cases the collection is returned
  as it was.
\<close>

theorem create_duplicates_rejected:
  "((\<exists>d \<in> set st. unitName d = unitName data)
      \<longrightarrow> POST_create st data = (Inl DuplicateUnitName, st)) \<and>
   ((\<forall>d \<in> set st. unitName d \<noteq> unitName data) \<and> (\<exists>d \<in> set st. unitNumber d = unitNumber data)
      \<longrightarrow> POST_create st data = (Inl DuplicateUnitNumber, st))"
proof (intro conjI impI)
  assume "\<exists>d \<in> set st. unitName d = unitName data"
  then have "findOne (\<lambda>d. unitName d = unitName data) st \<noteq> None"
    by (auto simp: findOne_def find_None_iff)
  then show "POST_create st data = (Inl DuplicateUnitName, st)"
    by (auto simp: POST_create_def)
next
  assume a: "(\<forall>d \<in> set st. unitName d \<noteq> unitName data) \<and> (\<exists>d \<in> set st. unitNumber d = unitNumber data)"
  then have n: "findOne (\<lambda>d. unitName d = unitName data) st = None"
    by (simp add: findOne_def find_None_iff)
  from a have "findOne (\<lambda>d. unitNumber d = unitNumber data) st \<noteq> None"
    by (auto simp: findOne_def find_None_iff)
  with n show "POST_create st data = (Inl DuplicateUnitNumber, st)"
    by (auto simp: POST_create_def)
qed

theorem create_duplicates_rejected_witness:
  "POST_create [stored 1 None sunrise_a] (tower_b\<lparr>unitName := ''Unit A'', unitNumber := 101\<rparr>)
     = (Inl DuplicateUnitName, [stored 1 None sunrise_a]) \<and>
   POST_create [stored 1 None sunrise_a] (tower_b\<lparr>unitNumber := 101\<rparr>)
     = (Inl DuplicateUnitNumber, [stored 1 None sunrise_a])"
proof -
  let ?st = "[stored 1 None sunrise_a]"
  let ?a = "tower_b\<lparr>unitName := ''Unit A'', unitNumber := 101\<rparr>"
  let ?b = "tower_b\<lparr>unitNumber := 101\<rparr>"
  have h1: "\<exists>d \<in> set ?st. unitName d = unitName ?a"
    by (simp add: sample_defs)
  have h2: "(\<forall>d \<in> set ?st. unitName d \<noteq> unitName ?b) \<and> (\<exists>d \<in> set ?st. unitNumber d = unitNumber ?b)"
    by (simp add: sample_defs)
  from h1 create_duplicates_rejected [of ?st ?a]
  have c1: "POST_create ?st ?a = (Inl DuplicateUnitName, ?st)" by blast
  from h2 create_duplicates_rejected [of ?st ?b]
  have c2: "POST_create ?st ?b = (Inl DuplicateUnitNumber, ?st)" by blast
  from c1 c2 show ?thesis by blast
qed

text \<open>
  \<^bold>\<open>C6\<close>. A returned page is sorted by \<^verbatim>\<open>updatedAt\<close>: non-decreasing when the order is
  \<^verbatim>\<open>asc\<close>, non-increasing when it is \<^verbatim>\<open>desc\<close> or absent (a missing \<^verbatim>\<open>updatedAt\<close>
  counting below every time stamp, as the database compares it).
\<close>

theorem query_sorted_by_updatedAt:
  assumes "POST_get re st data = Inr page"
  shows "(order data = Some ''asc'' \<longrightarrow> sorted_wrt (\<lambda>a b. updatedAt a \<le> updatedAt b) page) \<and>
         (order data = Some ''desc'' \<or> order data = None
            \<longrightarrow> sorted_wrt (\<lambda>a b. updatedAt b \<le> updatedAt a) page)"
proof -
  from assms obtain ms n m where
    page: "page = take n (drop m (sort_updatedAt (sortDirection data) ms))"
    using POST_get_cases by blast
  have s: "sorted_wrt (precedes (sortDirection data)) page"
    unfolding page by (rule sorted_page)
  have asc: "order data = Some ''asc'' \<Longrightarrow> precedes (sortDirection data) = (\<lambda>a b. updatedAt a \<le> updatedAt b)"
    by (auto simp: sortDirection_def precedes_def fun_eq_iff)
  have desc: "order data \<noteq> Some ''asc'' \<Longrightarrow> precedes (sortDirection data) = (\<lambda>a b. updatedAt b \<le> updatedAt a)"
    by (auto simp: sortDirection_def precedes_def fun_eq_iff)
  show ?thesis using s asc desc by auto
qed

theorem query_sorted_by_updatedAt_witness:
  "POST_get rejects_all stamped_store (no_fields\<lparr>order := Some ''asc''\<rparr>)
     = Inr [stored 2 None tower_b, stored 3 (Some 20) abc_c, stored 1 (Some 50) sunrise_a] \<and>
   sorted_wrt (\<lambda>a b. updatedAt a \<le> updatedAt b)
     [stored 2 None tower_b, stored 3 (Some 20) abc_c, stored 1 (Some 50) sunrise_a] \<and>
   POST_get rejects_all stamped_store no_fields
     = Inr [stored 1 (Some 50) sunrise_a, stored 3 (Some 20) abc_c, stored 2 None tower_b] \<and>
   sorted_wrt (\<lambda>a b. updatedAt b \<le> updatedAt a)
     [stored 1 (Some 50) sunrise_a, stored 3 (Some 20) abc_c, stored 2 None tower_b]"
proof -
  have a: "POST_get rejects_all stamped_store (no_fields\<lparr>order := Some ''asc''\<rparr>)
     = Inr [stored 2 None tower_b, stored 3 (Some 20) abc_c, stored 1 (Some 50) sunrise_a]"
    by (simp add: query_defs sample_defs)
  have d: "POST_get rejects_all stamped_store no_fields
     = Inr [stored 1 (Some 50) sunrise_a, stored 3 (Some 20) abc_c, stored 2 None tower_b]"
    by (simp add: query_defs sample_defs)
  have oa: "order (no_fields\<lparr>order := Some ''asc''\<rparr>) = Some ''asc''" by simp
  have od: "order no_fields = Some ''desc'' \<or> order no_fields = None"
    by (simp add: no_fields_def)
  from query_sorted_by_updatedAt [OF a] oa
  have sa: "sorted_wrt (\<lambda>a b. updatedAt a \<le> updatedAt b)
     [stored 2 None tower_b, stored 3 (Some 20) abc_c, stored 1 (Some 50) sunrise_a]"
    by blast
  from query_sorted_by_updatedAt [OF d] od
  have sd: "sorted_wrt (\<lambda>a b. updatedAt b \<le> updatedAt a)
     [stored 1 (Some 50) sunrise_a, stored 3 (Some 20) abc_c, stored 2 None tower_b]"
    by blast
  from a sa d sd show ?thesis by blast
qed





text \<open>
  \<^bold>\<open>C9\<close>. An update whose id no stored listing has answers \<open>NotFound\<close> and returns the
  collection as it was.
\<close>

theorem update_unknown_id_not_found:
  assumes "\<forall>d \<in> set st. doc_id d \<noteq> i"
  shows "POST_update st i f = (Inl NotFound, st)"
proof -
  have "findOne (\<lambda>d. doc_id d = i) st = None"
    using assms by (simp add: findOne_def find_None_iff)
  then show ?thesis by (simp add: POST_update_def)
qed

theorem update_unknown_id_not_found_witness:
  "POST_update stamped_store 9 tower_b = (Inl NotFound, stamped_store)"
proof -
  have "\<forall>d \<in> set stamped_store. doc_id d \<noteq> 9"
    by (simp add: sample_defs)
  then show ?thesis by (rule update_unknown_id_not_found)
qed

text \<open>
  \<^bold>\<open>C10\<close>. Any order other than the exact string \<^verbatim>\<open>asc\<close> sorts descending: the answer is
  that of the same request with the order \<^verbatim>\<open>desc\<close>, and that of the request without an
  order. Whether the route answers with an error does not depend on the order at all.
\<close>

theorem order_not_asc_is_descending:
  assumes "order data \<noteq> Some ''asc''"
  shows "sortDirection data = - 1 \<and>
         POST_get re st data = POST_get re st (data\<lparr>order := Some ''desc''\<rparr>) \<and>
         POST_get re st data = POST_get re st (data\<lparr>order := None\<rparr>) \<and>
         (\<forall>other. isl (POST_get re st (data\<lparr>order := other\<rparr>)) = isl (POST_get re st data))"
proof -
  have sd: "sortDirection data = - 1"
    using assms by (simp add: sortDirection_def)
  have ns: "isNumericSearch (data\<lparr>order := other\<rparr>) = isNumericSearch data" for other
    by (simp add: isNumericSearch_def)
  have fo: "filterOf data = filterOf (data\<lparr>order := other\<rparr>)" for other
    by (simp add: filterOf_def searchFilter_def userIdFilter_def listingIdFilter_def ns
             cong: option.case_cong if_cong)
  have d1: "POST_get re st data = POST_get re st (data\<lparr>order := Some ''desc''\<rparr>)"
    using assms by (intro POST_get_cong) (simp_all add: fo [symmetric] sortDirection_def)
  have d2: "POST_get re st data = POST_get re st (data\<lparr>order := None\<rparr>)"
    using assms by (intro POST_get_cong) (simp_all add: fo [symmetric] sortDirection_def)
  have "isl (POST_get re st (data\<lparr>order := other\<rparr>)) = isl (POST_get re st data)" for other
    by (simp add: POST_get_def fo [symmetric] Let_def split: sum.splits)
  with sd d1 d2 show ?thesis by blast
qed

theorem order_not_asc_is_descending_witness:
  "sortDirection (no_fields\<lparr>order := Some ''ASC''\<rparr>) = - 1 \<and>
   POST_get rejects_all stamped_store (no_fields\<lparr>order := Some ''ASC''\<rparr>)
     = Inr [stored 1 (Some 50) sunrise_a, stored 3 (Some 20) abc_c, stored 2 None tower_b]"
proof -
  let ?q = "no_fields\<lparr>order := Some ''ASC''\<rparr>"
  have h: "order ?q \<noteq> Some ''asc''" by simp
  note r = order_not_asc_is_descending [OF h, of rejects_all stamped_store]
  have "POST_get rejects_all stamped_store (?q\<lparr>order := Some ''desc''\<rparr>)
     = Inr [stored 1 (Some 50) sunrise_a, stored 3 (Some 20) abc_c, stored 2 None tower_b]"
    by (simp add: query_defs sample_defs)
  with r show ?thesis by simp
qed

end
